theory Spec2Isabelle
  imports Complex_Main "HOL-Library.AList"
begin

section \<open>Assessment marking engine (ai\_marking.py): a shallow embedding\<close>

text \<open>
  The module \<^verbatim>\<open>ai_marking.py\<close> defines the class \<^verbatim>\<open>AssessmentAI\<close>. Its methods are
  modelled here as HOL functions of the same names. Conventions of the embedding:
  \<^item> Python \<^verbatim>\<open>str\<close> is \<^typ>\<open>string\<close>; a character is one \<^typ>\<open>char\<close>.
  \<^item> Python \<^verbatim>\<open>int\<close> is \<^typ>\<open>int\<close> (or \<^typ>\<open>nat\<close> for a \<^verbatim>\<open>len\<close> or a counter).
  \<^item> Python \<^verbatim>\<open>float\<close> values (results of \<^verbatim>\<open>/\<close>, the literals \<^verbatim>\<open>0.3\<close>, \<^verbatim>\<open>0.9\<close>, ...) are
    exact rationals of type \<^typ>\<open>rat\<close>: the rounding error of binary floating point is
    not modelled.
  \<^item> A \<^verbatim>\<open>dict\<close> whose iteration order matters is an association list in insertion order,
    updated with \<^const>\<open>AList.update\<close> (an existing key keeps its place, a new key goes last).
  \<^item> The libraries the module calls (spaCy, \<^verbatim>\<open>re\<close>, \<^verbatim>\<open>requests\<close>, BeautifulSoup,
    \<^verbatim>\<open>urlparse\<close>) are not part of the module; what they return is supplied by a record of
    capabilities, \<open>env\<close>, about which nothing is assumed.
\<close>

subsection \<open>Python built-ins on strings and numbers\<close>

text \<open>\<^verbatim>\<open>str.lower\<close> on the characters below code point 256: the ASCII capitals and the
  Latin-1 capitals (all of 192..222 but the multiplication sign 215) move up by 32.\<close>

definition lower_char :: "char \<Rightarrow> char" where
  "lower_char c =
     (let n = (of_char c :: nat)
      in if (65 \<le> n \<and> n \<le> 90) \<or> (192 \<le> n \<and> n \<le> 222 \<and> n \<noteq> 215)
         then char_of (n + 32) else c)"

definition py_lower :: "string \<Rightarrow> string" where
  "py_lower s = map lower_char s"

text \<open>\<^verbatim>\<open>s.startswith(p)\<close> and the substring test \<^verbatim>\<open>sub in s\<close>.\<close>

fun py_startswith :: "string \<Rightarrow> string \<Rightarrow> bool" where
  "py_startswith s [] = True"
| "py_startswith [] (p # ps) = False"
| "py_startswith (c # cs) (p # ps) = (c = p \<and> py_startswith cs ps)"

fun py_in :: "string \<Rightarrow> string \<Rightarrow> bool" where
  "py_in sub [] = (sub = [])"
| "py_in sub (c # cs) = (py_startswith (c # cs) sub \<or> py_in sub cs)"

text \<open>\<^verbatim>\<open>str.isspace\<close> for one character below code point 256: tab, line feed, vertical tab,
  form feed, carriage return, the separators 28..31, space, NEL (133) and the no-break
  space (160).\<close>

definition py_isspace :: "char \<Rightarrow> bool" where
  "py_isspace c =
     (let n = (of_char c :: nat)
      in (9 \<le> n \<and> n \<le> 13) \<or> (28 \<le> n \<and> n \<le> 32) \<or> n = 133 \<or> n = 160)"

text \<open>\<^verbatim>\<open>s.strip()\<close>, \<^verbatim>\<open>s.rstrip(chars)\<close>, \<^verbatim>\<open>s.endswith(c)\<close> for a one-character suffix,
  \<^verbatim>\<open>' '.join(xs)\<close>.\<close>

definition py_strip :: "string \<Rightarrow> string" where
  "py_strip s = rev (dropWhile py_isspace (rev (dropWhile py_isspace s)))"

definition py_rstrip :: "string \<Rightarrow> string \<Rightarrow> string" where
  "py_rstrip chars s = rev (dropWhile (\<lambda>c. c \<in> set chars) (rev s))"

definition py_endswith_char :: "string \<Rightarrow> char \<Rightarrow> bool" where
  "py_endswith_char s c = (s \<noteq> [] \<and> last s = c)"

fun py_join_space :: "string list \<Rightarrow> string" where
  "py_join_space [] = []"
| "py_join_space [x] = x"
| "py_join_space (x # y # ys) = x @ '' '' @ py_join_space (y # ys)"

text \<open>\<^verbatim>\<open>s.split()\<close>: the maximal runs of non-whitespace characters. The first argument
  is the word being read.\<close>

fun split_words :: "string \<Rightarrow> string \<Rightarrow> string list" where
  "split_words w [] = (if w = [] then [] else [w])"
| "split_words w (c # cs) =
     (if py_isspace c then (if w = [] then split_words [] cs else w # split_words [] cs)
      else split_words (w @ [c]) cs)"

definition py_split :: "string \<Rightarrow> string list" where
  "py_split s = split_words [] s"

text \<open>\<^verbatim>\<open>s.split('\n\n')\<close>: the pieces between the non-overlapping occurrences of two
  line feeds, scanned from the left. The first argument is the piece being read.\<close>

fun split_blank :: "string \<Rightarrow> string \<Rightarrow> string list" where
  "split_blank p [] = [p]"
| "split_blank p [a] = [p @ [a]]"
| "split_blank p (a # b # cs) =
     (if a = CHR 0x0A \<and> b = CHR 0x0A then p # split_blank [] cs
      else split_blank (p @ [a]) (b # cs))"

definition py_split_blank :: "string \<Rightarrow> string list" where
  "py_split_blank s = split_blank [] s"

text \<open>\<^verbatim>\<open>int(s)\<close> for a string of decimal digits (the groups it is applied to were matched
  by \<^verbatim>\<open>\d+\<close> or \<^verbatim>\<open>\d{1,2}\<close>), and \<^verbatim>\<open>str(n)\<close> for a non-negative integer.\<close>

definition digit_val :: "char \<Rightarrow> int" where
  "digit_val c = int (of_char c) - 48"

definition py_int :: "string \<Rightarrow> int" where
  "py_int s = foldl (\<lambda>a c. 10 * a + digit_val c) 0 s"

fun py_str_nat :: "nat \<Rightarrow> string" where
  "py_str_nat n =
     (if n < 10 then [char_of (48 + n)]
      else py_str_nat (n div 10) @ [char_of (48 + n mod 10)])"

text \<open>\<^verbatim>\<open>round(x)\<close> with one argument: the nearest integer, a tie going to the even
  neighbour.\<close>

definition py_round :: "rat \<Rightarrow> int" where
  "py_round x =
     (let f = \<lfloor>x\<rfloor>; d = x - of_int f
      in if d < 1 / 2 then f
         else if 1 / 2 < d then f + 1
         else if even f then f else f + 1)"

text \<open>Truth value of an optional string (\<^verbatim>\<open>None\<close> and \<^verbatim>\<open>''\<close> are false).\<close>

fun truthy :: "string option \<Rightarrow> bool" where
  "truthy None = False"
| "truthy (Some s) = (s \<noteq> [])"

datatype py_error = ZeroDivisionError

subsection \<open>Data model\<close>

text \<open>A criterion of a rubric, as \<^verbatim>\<open>process_rubric\<close> builds it (all four keys present).\<close>

record criterion =
  crit_name :: string
  crit_weight :: int
  crit_description :: string
  crit_keywords :: "string list"

record rubric_analysis =
  ra_criteria :: "criterion list"
  ra_grade_boundaries :: "(string \<times> (int \<times> int)) list"
  ra_full_text :: string

record brief_analysis =
  ba_requirements :: "string list"
  ba_learning_outcomes :: "string list"
  ba_submission_details :: "string list"
  ba_key_topics :: "string list"
  ba_full_text :: string

text \<open>What spaCy gives for a text: tokens, sentences, noun chunks and named entities.
  \<open>doc_text\<close> is \<^verbatim>\<open>doc.text\<close>, the text the \<^verbatim>\<open>Doc\<close> was made from.\<close>

record token =
  tok_text :: string
  tok_pos :: string
  tok_is_alpha :: bool

record chunk =
  chunk_text :: string
  root_text :: string
  root_pos :: string
  root_is_alpha :: bool

record tagging =
  tg_tokens :: "token list"
  tg_sents :: "string list"
  tg_noun_chunks :: "chunk list"
  tg_ents :: "(string \<times> string) list"

record doc =
  doc_text :: string
  doc_tokens :: "token list"
  doc_sents :: "string list"
  doc_noun_chunks :: "chunk list"
  doc_ents :: "(string \<times> string) list"

record response =
  status_code :: int
  response_text :: string

text \<open>What BeautifulSoup gives for a page: \<open>soup_title\<close> is \<open>None\<close> without a
  \<^verbatim>\<open>title\<close> tag and \<open>Some t\<close> with one, \<open>t\<close> being \<^verbatim>\<open>soup.title.string\<close> (which may be
  \<^verbatim>\<open>None\<close>); \<open>soup_paragraphs\<close> are the \<^verbatim>\<open>get_text()\<close> of the \<^verbatim>\<open>p\<close> tags;
  \<open>soup_meta\<close> is \<open>None\<close> without a description meta tag and \<open>Some a\<close> with one,
  \<open>a\<close> being its \<^verbatim>\<open>content\<close> attribute, if any.\<close>

record soup =
  soup_title :: "string option option"
  soup_paragraphs :: "string list"
  soup_meta :: "string option option"

text \<open>The capabilities. A call that can raise returns \<open>Inl\<close> of the exception's message
  (\<^verbatim>\<open>str(e)\<close>), or \<open>None\<close> where only the fact matters.\<close>

record env =
  tagger :: "string \<Rightarrow> tagging"
  similarity :: "string \<Rightarrow> string \<Rightarrow> rat"
  stop_words :: "string set"
  set_order :: "string list \<Rightarrow> string list"
  findall_criteria :: "string \<Rightarrow> (string \<times> string \<times> string) list"
  search_grade :: "string \<Rightarrow> string \<Rightarrow> (string \<times> string option) option"
  finditer_ranges :: "string \<Rightarrow> (string \<times> string \<times> string) list"
  findall_urls :: "string \<Rightarrow> string list"
  urlparse :: "string \<Rightarrow> (string \<times> string) option"
  requests_get :: "string \<Rightarrow> string + response"
  raise_for_status :: "response \<Rightarrow> string option"
  html_parser :: "string \<Rightarrow> string + soup"

definition nlp :: "env \<Rightarrow> string \<Rightarrow> doc" where
  "nlp e t =
     (let g = tagger e t
      in \<lparr>doc_text = t, doc_tokens = tg_tokens g, doc_sents = tg_sents g,
          doc_noun_chunks = tg_noun_chunks g, doc_ents = tg_ents g\<rparr>)"

subsection \<open>Grade determination\<close>

definition default_boundaries :: "(string \<times> (int \<times> int)) list" where
  "default_boundaries =
     [(''A'', (80, 100)), (''B'', (70, 79)), (''C'', (60, 69)), (''D'', (50, 59)),
      (''F'', (0, 49))]"

text \<open>The loop over \<^verbatim>\<open>boundaries.items()\<close>: the first range holding the percentage.\<close>

fun first_matching_grade :: "rat \<Rightarrow> (string \<times> (int \<times> int)) list \<Rightarrow> string option" where
  "first_matching_grade percentage [] = None"
| "first_matching_grade percentage ((grade, (lower, upper)) # rest) =
     (if of_int lower \<le> percentage \<and> percentage \<le> of_int upper then Some grade
      else first_matching_grade percentage rest)"

definition determine_grade :: "rat \<Rightarrow> (string \<times> (int \<times> int)) list \<Rightarrow> string" where
  "determine_grade percentage grade_boundaries =
     (let boundaries = (if grade_boundaries \<noteq> [] then grade_boundaries else default_boundaries)
      in case first_matching_grade percentage boundaries of
           Some grade \<Rightarrow> grade
         | None \<Rightarrow>
             if 80 \<le> percentage then ''A''
             else if 70 \<le> percentage then ''B''
             else if 60 \<le> percentage then ''C''
             else if 50 \<le> percentage then ''D''
             else ''F'')"

text \<open>The fixed banding as the specification words it.\<close>

definition fixed_banding :: "rat \<Rightarrow> string" where
  "fixed_banding p =
     (if 80 \<le> p then ''A'' else if 70 \<le> p then ''B'' else if 60 \<le> p then ''C''
      else if 50 \<le> p then ''D'' else ''F'')"

subsection \<open>Topic coverage and criterion relevance\<close>

text \<open>The inner loop of \<^verbatim>\<open>_calculate_topic_coverage\<close> for one brief topic: true when the
  loop leaves through one of its two \<^verbatim>\<open>break\<close>s, having added one to the counter.\<close>

fun topic_covered :: "env \<Rightarrow> string \<Rightarrow> string list \<Rightarrow> bool" where
  "topic_covered e brief_topic [] = False"
| "topic_covered e brief_topic (student_topic # rest) =
     (if py_in brief_topic student_topic \<or> py_in student_topic brief_topic then True
      else if 7 / 10 < similarity e brief_topic student_topic then True
      else topic_covered e brief_topic rest)"

text \<open>The outer loop, with the counter \<^verbatim>\<open>covered_topics\<close>.\<close>

fun count_covered :: "env \<Rightarrow> string list \<Rightarrow> string list \<Rightarrow> nat \<Rightarrow> nat" where
  "count_covered e student_topics [] covered_topics = covered_topics"
| "count_covered e student_topics (brief_topic # rest) covered_topics =
     count_covered e student_topics rest
       (if topic_covered e brief_topic student_topics then covered_topics + 1
        else covered_topics)"

definition calculate_topic_coverage :: "env \<Rightarrow> string list \<Rightarrow> string list \<Rightarrow> rat" where
  "calculate_topic_coverage e student_topics brief_topics =
     (if brief_topics = [] then 1
      else of_nat (count_covered e student_topics brief_topics 0)
           / of_nat (length brief_topics))"

text \<open>The loop of \<^verbatim>\<open>_calculate_criterion_relevance\<close>, with the counter
  \<^verbatim>\<open>keyword_count\<close>; \<open>text\<close> is the lower-cased text of the document.\<close>

fun count_keywords :: "string \<Rightarrow> string list \<Rightarrow> nat \<Rightarrow> nat" where
  "count_keywords text [] keyword_count = keyword_count"
| "count_keywords text (keyword # rest) keyword_count =
     count_keywords text rest
       (if py_in (py_lower keyword) text then keyword_count + 1 else keyword_count)"

definition calculate_criterion_relevance :: "doc \<Rightarrow> string list \<Rightarrow> rat" where
  "calculate_criterion_relevance d criterion_keywords =
     (if criterion_keywords = [] then 1 / 2
      else
        let text = py_lower (doc_text d);
            keyword_count = count_keywords text criterion_keywords 0;
            relevance = (if criterion_keywords \<noteq> []
                         then of_nat keyword_count / of_nat (length criterion_keywords)
                         else 0)
        in min (9 / 10) (max (3 / 10) relevance))"

subsection \<open>Reference resolver\<close>

definition extract_urls :: "env \<Rightarrow> string \<Rightarrow> string list" where
  "extract_urls e text =
     filter (\<lambda>url. case urlparse e url of
                      None \<Rightarrow> False
                    | Some (scheme, netloc) \<Rightarrow> scheme \<noteq> [] \<and> netloc \<noteq> [])
            (findall_urls e text)"

text \<open>The dictionaries \<^verbatim>\<open>analyze_url_content\<close> returns. In \<open>url_record\<close> the fields
  \<open>ua_key_phrases\<close> and \<open>ua_entities\<close> are \<open>None\<close> when the dictionary has no such
  key; \<open>ua_title\<close> is \<open>None\<close> for the Python value \<^verbatim>\<open>None\<close>.\<close>

record url_record =
  ua_url :: string
  ua_title :: "string option"
  ua_meta_description :: string
  ua_key_phrases :: "string list option"
  ua_entities :: "(string \<times> string) list option"
  ua_content_sample :: string

record url_failure =
  uf_url :: string
  uf_error :: string
  uf_status :: string

datatype url_analysis = Analysed url_record | Failed url_failure

definition failed :: "string \<Rightarrow> string \<Rightarrow> url_analysis" where
  "failed url err = Failed \<lparr>uf_url = url, uf_error = err, uf_status = ''failed''\<rparr>"

text \<open>The loop \<^verbatim>\<open>content += para.get_text() + " "\<close> over the paragraphs.\<close>

fun page_content :: "string list \<Rightarrow> string \<Rightarrow> string" where
  "page_content [] content = content"
| "page_content (para # rest) content = page_content rest (content @ para @ '' '')"

text \<open>The body of the \<^verbatim>\<open>try\<close> block once the page is parsed.\<close>

definition analyze_soup :: "env \<Rightarrow> string \<Rightarrow> soup \<Rightarrow> url_analysis" where
  "analyze_soup e url sp =
     (let title = (case soup_title sp of None \<Rightarrow> Some ''No title'' | Some t \<Rightarrow> t);
          content = page_content (soup_paragraphs sp) [];
          meta_description =
            (case soup_meta sp of
               None \<Rightarrow> []
             | Some None \<Rightarrow> []
             | Some (Some c) \<Rightarrow> c)
      in if content \<noteq> [] then
           let d = nlp e (take 5000 content);
               key_phrases =
                 take 10 [chunk_text c. c \<leftarrow> doc_noun_chunks d,
                                        1 < length (py_split (chunk_text c))];
               entities = take 10 (doc_ents d)
           in Analysed
                \<lparr>ua_url = url, ua_title = title, ua_meta_description = meta_description,
                 ua_key_phrases = Some key_phrases, ua_entities = Some entities,
                 ua_content_sample =
                   (if 500 < length content then take 500 content @ ''...'' else content)\<rparr>
         else
           Analysed
             \<lparr>ua_url = url, ua_title = title, ua_meta_description = meta_description,
              ua_key_phrases = None, ua_entities = None,
              ua_content_sample =
                (if 500 < length content then take 500 content @ ''...'' else content)\<rparr>)"

definition analyze_url_content :: "env \<Rightarrow> string \<Rightarrow> url_analysis" where
  "analyze_url_content e url =
     (case requests_get e url of
        Inl err \<Rightarrow> failed url err
      | Inr resp \<Rightarrow>
          (case raise_for_status e resp of
             Some err \<Rightarrow> failed url err
           | None \<Rightarrow>
               (case html_parser e (response_text resp) of
                  Inl err \<Rightarrow> failed url err
                | Inr sp \<Rightarrow> analyze_soup e url sp)))"

subsection \<open>Feedback composer\<close>

record criterion_feedback =
  fb_strength :: "string option"
  fb_weakness :: "string option"
  fb_suggestions :: string

record criterion_mark =
  cm_name :: string
  cm_score :: int
  cm_max_score :: int
  cm_feedback :: criterion_feedback

record overall_feedback =
  of_general_comments :: string
  of_strengths :: "string list"
  of_areas_for_improvement :: "string list"
  of_recommendations :: "string list"

text \<open>\<^verbatim>\<open>(score / max_score) * 100\<close> raises for a zero \<^verbatim>\<open>max_score\<close>.\<close>

definition generate_criterion_feedback ::
  "string \<Rightarrow> int \<Rightarrow> int \<Rightarrow> string \<Rightarrow> string \<Rightarrow> py_error + criterion_feedback" where
  "generate_criterion_feedback criterion_name score max_score student_text criterion_description =
     (if max_score = 0 then Inl ZeroDivisionError
      else
        let percentage = (of_int score / of_int max_score) * (100 :: rat);
            lname = py_lower criterion_name;
            sw =
              (if 80 \<le> percentage then
                 (Some (''Excellent demonstration of '' @ lname), None)
               else if 60 \<le> percentage then
                 (Some (''Good demonstration of '' @ lname),
                  Some (''Could further improve '' @ lname @ '' by providing more depth''))
               else if 40 \<le> percentage then
                 (Some (''Adequate demonstration of '' @ lname),
                  Some (''Need to develop '' @ lname @ '' more thoroughly''))
               else
                 (None, Some (''Significant improvement needed in '' @ lname)))
        in Inr \<lparr>fb_strength = fst sw, fb_weakness = snd sw,
                fb_suggestions =
                  ''Consider reviewing the requirements for '' @ lname
                  @ '' in the assessment brief''\<rparr>)"

text \<open>The entries of a list of optional strings that Python takes as true.\<close>

fun true_items :: "string option list \<Rightarrow> string list" where
  "true_items [] = []"
| "true_items (x # xs) =
     (case x of
        None \<Rightarrow> true_items xs
      | Some s \<Rightarrow> if s \<noteq> [] then s # true_items xs else true_items xs)"

definition generate_overall_feedback ::
  "criterion_mark list \<Rightarrow> rat \<Rightarrow> string \<Rightarrow> rat \<Rightarrow> url_analysis list \<Rightarrow> overall_feedback" where
  "generate_overall_feedback criteria_marks percentage grade topic_coverage url_analyses =
     (let strengths = true_items (map (\<lambda>c. fb_strength (cm_feedback c)) criteria_marks);
          areas_for_improvement =
            true_items (map (\<lambda>c. fb_weakness (cm_feedback c)) criteria_marks);
          c1 =
            (if 80 \<le> percentage then
               ''Excellent work that demonstrates a comprehensive understanding of the subject matter.''
             else if 70 \<le> percentage then
               ''Very good work that shows a solid understanding of the subject matter.''
             else if 60 \<le> percentage then
               ''Good work that demonstrates understanding of most key aspects of the subject matter.''
             else if 50 \<le> percentage then
               ''Satisfactory work that meets the basic requirements but lacks depth in some areas.''
             else
               ''This work does not meet the minimum requirements and needs significant improvement.'');
          c2 =
            c1 @
            (if 8 / 10 < topic_coverage then
               '' The work covers all key topics effectively.''
             else if 6 / 10 < topic_coverage then
               '' The work covers most key topics but could be more comprehensive.''
             else
               '' The work misses several key topics that should be addressed.'');
          general_comments =
            (if url_analyses \<noteq> [] then
               c2 @ '' The work incorporates '' @ py_str_nat (length url_analyses)
                  @ '' external sources, which adds to its depth.''
             else c2);
          recommendations =
            [''Review the assessment brief to ensure all requirements are met'',
             ''Consider the feedback for each criterion to improve future work'']
            @ (if areas_for_improvement \<noteq> []
               then [''Focus on addressing the identified areas for improvement'']
               else [])
      in \<lparr>of_general_comments = general_comments, of_strengths = strengths,
          of_areas_for_improvement = areas_for_improvement,
          of_recommendations = recommendations\<rparr>)"

subsection \<open>Marking engine\<close>

record statistics =
  st_word_count :: nat
  st_sentence_count :: nat
  st_avg_sentence_length :: rat
  st_url_count :: nat
  st_topic_coverage :: rat

record marking_result =
  mr_total_score :: int
  mr_max_score :: int
  mr_percentage :: rat
  mr_grade :: string
  mr_criteria_marks :: "criterion_mark list"
  mr_feedback :: overall_feedback
  mr_statistics :: statistics
  mr_url_analyses :: "url_analysis list"

text \<open>The loop over the criteria of \<^verbatim>\<open>mark_student_work\<close>, with its three accumulators
  \<^verbatim>\<open>criteria_marks\<close>, \<^verbatim>\<open>total_score\<close> and \<^verbatim>\<open>max_score\<close>.\<close>

fun mark_criteria ::
  "doc \<Rightarrow> string \<Rightarrow> criterion list \<Rightarrow> criterion_mark list \<Rightarrow> int \<Rightarrow> int
   \<Rightarrow> py_error + (criterion_mark list \<times> int \<times> int)" where
  "mark_criteria d student_work_text [] criteria_marks total_score max_score =
     Inr (criteria_marks, total_score, max_score)"
| "mark_criteria d student_work_text (c # rest) criteria_marks total_score max_score =
     (let criterion_name = crit_name c;
          criterion_keywords = crit_keywords c;
          relevance_score = calculate_criterion_relevance d criterion_keywords;
          criterion_max_score = 10;
          criterion_score = py_round (relevance_score * of_int criterion_max_score)
      in case generate_criterion_feedback criterion_name criterion_score criterion_max_score
                student_work_text (crit_description c) of
           Inl err \<Rightarrow> Inl err
         | Inr criterion_feedback \<Rightarrow>
             mark_criteria d student_work_text rest
               (criteria_marks @
                 [\<lparr>cm_name = criterion_name, cm_score = criterion_score,
                   cm_max_score = criterion_max_score, cm_feedback = criterion_feedback\<rparr>])
               (total_score + criterion_score) (max_score + criterion_max_score))"

definition mark_student_work ::
  "env \<Rightarrow> string \<Rightarrow> brief_analysis \<Rightarrow> rubric_analysis \<Rightarrow> py_error + marking_result" where
  "mark_student_work e student_work_text brief rubric =
     (let urls = extract_urls e student_work_text;
          url_analyses = map (analyze_url_content e) (take 5 urls);
          d = nlp e student_work_text;
          word_count = length (filter tok_is_alpha (doc_tokens d));
          sentence_count = length (doc_sents d);
          avg_sentence_length =
            (if 0 < sentence_count then of_nat word_count / of_nat sentence_count else 0);
          student_topics =
            [py_lower (chunk_text c). c \<leftarrow> doc_noun_chunks d,
               1 < length (py_split (chunk_text c))
               \<and> (root_pos c = ''NOUN'' \<or> root_pos c = ''PROPN'')];
          brief_topics = ba_key_topics brief;
          topic_coverage = calculate_topic_coverage e student_topics brief_topics
      in case mark_criteria d student_work_text (ra_criteria rubric) [] 0 0 of
           Inl err \<Rightarrow> Inl err
         | Inr (criteria_marks, total_score, max_score) \<Rightarrow>
             let percentage =
                   (if 0 < max_score then of_int total_score / of_int max_score * 100 else 0);
                 grade = determine_grade percentage (ra_grade_boundaries rubric);
                 feedback =
                   generate_overall_feedback criteria_marks percentage grade topic_coverage
                     url_analyses
             in Inr \<lparr>mr_total_score = total_score, mr_max_score = max_score,
                     mr_percentage = percentage, mr_grade = grade,
                     mr_criteria_marks = criteria_marks, mr_feedback = feedback,
                     mr_statistics =
                       \<lparr>st_word_count = word_count, st_sentence_count = sentence_count,
                        st_avg_sentence_length = avg_sentence_length,
                        st_url_count = length urls, st_topic_coverage = topic_coverage\<rparr>,
                     mr_url_analyses = url_analyses\<rparr>)"

subsection \<open>Analytics aggregator\<close>











subsection \<open>Rubric parser\<close>

definition extract_keywords :: "env \<Rightarrow> string \<Rightarrow> string list" where
  "extract_keywords e text =
     (let d = nlp e text;
          k1 = map (\<lambda>ent. py_lower (fst ent)) (doc_ents d);
          k2 = k1 @
               [py_lower (chunk_text c). c \<leftarrow> doc_noun_chunks d,
                  (root_pos c = ''NOUN'' \<or> root_pos c = ''PROPN'') \<and> root_is_alpha c
                  \<and> py_lower (root_text c) \<notin> stop_words e];
          k3 = k2 @
               [py_lower (tok_text t). t \<leftarrow> doc_tokens d,
                  tok_pos t = ''VERB'' \<and> tok_is_alpha t
                  \<and> py_lower (tok_text t) \<notin> stop_words e];
          k4 = set_order e k3;
          k5 = sort_key (\<lambda>k. - int (length k)) k4
      in take 20 k5)"

definition grade_labels :: "string list" where
  "grade_labels =
     [''A'', ''B'', ''C'', ''D'', ''F'', ''Fail'', ''Pass'', ''Merit'', ''Distinction'']"

text \<open>The loop over the labelled grade patterns; \<open>search_grade e grade text\<close> is the
  pair of groups 1 and 2 of the first match of the pattern of \<open>grade\<close>, if any.\<close>

fun labelled_boundaries ::
  "env \<Rightarrow> string \<Rightarrow> string list \<Rightarrow> (string \<times> (int \<times> int)) list
   \<Rightarrow> (string \<times> (int \<times> int)) list" where
  "labelled_boundaries e text [] boundaries = boundaries"
| "labelled_boundaries e text (grade # rest) boundaries =
     labelled_boundaries e text rest
       (case search_grade e grade text of
          None \<Rightarrow> boundaries
        | Some (g1, g2) \<Rightarrow>
            (case g2 of
               None \<Rightarrow> AList.update grade (py_int g1, py_int g1) boundaries
             | Some s \<Rightarrow>
                 if s \<noteq> [] then AList.update grade (py_int g1, py_int s) boundaries
                 else AList.update grade (py_int g1, py_int g1) boundaries))"

fun inferred_boundaries ::
  "(string \<times> string \<times> string) list \<Rightarrow> (string \<times> (int \<times> int)) list
   \<Rightarrow> (string \<times> (int \<times> int)) list" where
  "inferred_boundaries [] boundaries = boundaries"
| "inferred_boundaries ((g1, g2, g3) # rest) boundaries =
     inferred_boundaries rest (AList.update (py_strip g3) (py_int g1, py_int g2) boundaries)"

definition extract_grade_boundaries :: "env \<Rightarrow> string \<Rightarrow> (string \<times> (int \<times> int)) list" where
  "extract_grade_boundaries e text =
     (let boundaries = labelled_boundaries e text grade_labels []
      in if boundaries = [] then inferred_boundaries (finditer_ranges e text) []
         else boundaries)"

text \<open>First pass: one criterion for each match \<open>(name, weight, description)\<close> of the
  weighted-header pattern.\<close>

definition weighted_pass :: "env \<Rightarrow> string \<Rightarrow> criterion list" where
  "weighted_pass e rubric_text =
     map (\<lambda>(name, weight, description).
            \<lparr>crit_name = py_strip name, crit_weight = py_int weight,
             crit_description = py_strip description,
             crit_keywords = extract_keywords e (py_strip description)\<rparr>)
         (findall_criteria e rubric_text)"

text \<open>Second pass. \<open>save_criterion\<close> is the statement that appends the criterion being
  read, if there is one (it occurs twice in the source: before a new header, and after the
  loop).\<close>

definition save_criterion ::
  "env \<Rightarrow> string option \<Rightarrow> string list \<Rightarrow> criterion list \<Rightarrow> criterion list" where
  "save_criterion e current_criterion current_description crits =
     (case current_criterion of
        None \<Rightarrow> crits
      | Some n \<Rightarrow>
          if n \<noteq> [] then
            crits @
              [\<lparr>crit_name = n, crit_weight = 25,
                crit_description = py_join_space current_description,
                crit_keywords = extract_keywords e (py_join_space current_description)\<rparr>]
          else crits)"

fun paragraph_loop ::
  "env \<Rightarrow> string list \<Rightarrow> criterion list \<Rightarrow> string option \<Rightarrow> string list
   \<Rightarrow> criterion list \<times> string option \<times> string list" where
  "paragraph_loop e [] crits current_criterion current_description =
     (crits, current_criterion, current_description)"
| "paragraph_loop e (p # rest) crits current_criterion current_description =
     (let para = py_strip p
      in if para = [] then paragraph_loop e rest crits current_criterion current_description
         else if length (py_split para) \<le> 10
                 \<and> (py_endswith_char para (CHR '':'') \<or> py_endswith_char para (CHR '')''))
         then paragraph_loop e rest
                (save_criterion e current_criterion current_description crits)
                (Some (py_rstrip '':)'' para)) []
         else paragraph_loop e rest crits current_criterion
                (if truthy current_criterion then current_description @ [para]
                 else current_description))"

definition paragraph_pass :: "env \<Rightarrow> string \<Rightarrow> criterion list" where
  "paragraph_pass e rubric_text =
     (case paragraph_loop e (py_split_blank rubric_text) [] None [] of
        (crits, current_criterion, current_description) \<Rightarrow>
          save_criterion e current_criterion current_description crits)"

definition default_criteria :: "criterion list" where
  "default_criteria =
     [\<lparr>crit_name = ''Content'', crit_weight = 40,
       crit_description = ''Quality and comprehensiveness of content'',
       crit_keywords = [''content'', ''quality'', ''comprehensive'', ''understanding'',
                        ''knowledge'']\<rparr>,
      \<lparr>crit_name = ''Structure'', crit_weight = 30,
       crit_description = ''Organization and logical flow'',
       crit_keywords = [''structure'', ''organization'', ''flow'', ''coherent'', ''logical'']\<rparr>,
      \<lparr>crit_name = ''Research'', crit_weight = 20,
       crit_description = ''Use of sources and evidence'',
       crit_keywords = [''research'', ''sources'', ''evidence'', ''references'', ''citation'']\<rparr>,
      \<lparr>crit_name = ''Language'', crit_weight = 10,
       crit_description = ''Grammar, spelling, and academic writing style'',
       crit_keywords = [''language'', ''grammar'', ''spelling'', ''writing'', ''style'']\<rparr>]"

definition process_rubric :: "env \<Rightarrow> string \<Rightarrow> rubric_analysis" where
  "process_rubric e rubric_text =
     (let c1 = weighted_pass e rubric_text;
          c2 = (if c1 = [] then paragraph_pass e rubric_text else c1);
          c3 = (if c2 = [] then default_criteria else c2);
          boundaries = extract_grade_boundaries e rubric_text
      in \<lparr>ra_criteria = c3, ra_grade_boundaries = boundaries, ra_full_text = rubric_text\<rparr>)"

subsection \<open>The specification's wording of relevance, coverage and weights\<close>

text \<open>Criterion relevance as the specification words it: one half without keywords,
  otherwise the fraction of the keywords whose lower-cased form is a substring of the
  lower-cased text, clamped to the interval from 0.3 to 0.9.\<close>

definition keyword_present :: "string \<Rightarrow> string \<Rightarrow> bool" where
  "keyword_present text keyword = py_in (py_lower keyword) (py_lower text)"

definition spec_relevance :: "string \<Rightarrow> string list \<Rightarrow> rat" where
  "spec_relevance text kws =
     (if kws = [] then 1 / 2
      else min (9 / 10)
             (max (3 / 10)
                (of_nat (length (filter (keyword_present text) kws)) / of_nat (length kws))))"

text \<open>A brief topic is covered by a student topic when one contains the other or their
  similarity exceeds 0.7; it is covered when some student topic covers it.\<close>

definition covers :: "env \<Rightarrow> string \<Rightarrow> string \<Rightarrow> bool" where
  "covers e brief_topic student_topic =
     (py_in brief_topic student_topic \<or> py_in student_topic brief_topic
      \<or> 7 / 10 < similarity e brief_topic student_topic)"

definition covered_topics :: "env \<Rightarrow> string list \<Rightarrow> string list \<Rightarrow> string list" where
  "covered_topics e student_topics brief_topics =
     filter (\<lambda>b. list_ex (covers e b) student_topics) brief_topics"

text \<open>Two rubric analyses are identical except for the weights of their criteria when
  they are equal once every weight is overwritten by the same value.\<close>

definition erase_weights :: "rubric_analysis \<Rightarrow> rubric_analysis" where
  "erase_weights r = r\<lparr>ra_criteria := map (\<lambda>c. c\<lparr>crit_weight := 0\<rparr>) (ra_criteria r)\<rparr>"

subsection \<open>Concrete environments for evaluating the model\<close>

text \<open>An environment in which the tagger and the patterns find nothing and every fetch
  fails, and one in which every fetch succeeds with a page of the given paragraphs.\<close>

definition no_tagging :: tagging where
  "no_tagging = \<lparr>tg_tokens = [], tg_sents = [], tg_noun_chunks = [], tg_ents = []\<rparr>"

definition offline_env :: env where
  "offline_env =
     \<lparr>tagger = (\<lambda>t. no_tagging), similarity = (\<lambda>a b. 0), stop_words = {},
      set_order = remdups, findall_criteria = (\<lambda>t. []), search_grade = (\<lambda>g t. None),
      finditer_ranges = (\<lambda>t. []), findall_urls = (\<lambda>t. []), urlparse = (\<lambda>u. None),
      requests_get = (\<lambda>u. Inl ''connection refused''), raise_for_status = (\<lambda>r. None),
      html_parser = (\<lambda>t. Inl ''no parser'')\<rparr>"

definition page_env :: "string list \<Rightarrow> env" where
  "page_env paragraphs =
     offline_env
       \<lparr>requests_get := (\<lambda>u. Inr \<lparr>status_code = 200, response_text = []\<rparr>),
        html_parser :=
          (\<lambda>t. Inr \<lparr>soup_title = None, soup_paragraphs = paragraphs, soup_meta = None\<rparr>)\<rparr>"



definition no_brief :: brief_analysis where
  "no_brief =
     \<lparr>ba_requirements = [], ba_learning_outcomes = [], ba_submission_details = [],
      ba_key_topics = [], ba_full_text = []\<rparr>"

text \<open>A rubric analysis without criteria, and one with two criteria of the given
  weights.\<close>

definition no_criteria :: rubric_analysis where
  "no_criteria = \<lparr>ra_criteria = [], ra_grade_boundaries = [], ra_full_text = []\<rparr>"

definition two_criteria :: "int \<Rightarrow> int \<Rightarrow> rubric_analysis" where
  "two_criteria w1 w2 =
     \<lparr>ra_criteria =
        [\<lparr>crit_name = ''Content'', crit_weight = w1, crit_description = ''Quality of content'',
          crit_keywords = [''Content'', ''evidence'']\<rparr>,
         \<lparr>crit_name = ''Style'', crit_weight = w2, crit_description = ''Academic style'',
          crit_keywords = []\<rparr>],
      ra_grade_boundaries = [], ra_full_text = []\<rparr>"


section \<open>Verified properties\<close>

subsection \<open>Auxiliary facts about the marking loop\<close>

lemma count_keywords_filter:
  "count_keywords text kws n = n + length (filter (\<lambda>k. py_in (py_lower k) text) kws)"
  by (induction kws arbitrary: n) simp_all

lemma relevance_is_spec:
  "calculate_criterion_relevance d kws = spec_relevance (doc_text d) kws"
  by (simp add: calculate_criterion_relevance_def spec_relevance_def Let_def
      count_keywords_filter keyword_present_def [abs_def])

lemma doc_text_nlp: "doc_text (nlp e t) = t"
  by (simp add: nlp_def Let_def)

lemma spec_relevance_bounds:
  "3 / 10 \<le> spec_relevance t kws \<and> spec_relevance t kws \<le> 9 / 10"
  by (auto simp: spec_relevance_def min_def max_def)

lemma py_round_lower: "of_int a \<le> x \<Longrightarrow> a \<le> py_round x"
  unfolding py_round_def Let_def by (auto simp: le_floor_iff) linarith+

lemma py_round_upper:
  assumes h: "x \<le> of_int b"
  shows "py_round x \<le> b"
proof -
  have f: "\<lfloor>x\<rfloor> \<le> b" using h by (simp add: floor_le_iff)
  show ?thesis
  proof (cases "\<lfloor>x\<rfloor> = b")
    case True
    then have "x - of_int \<lfloor>x\<rfloor> \<le> 0" using h by simp
    then show ?thesis using f by (simp add: py_round_def Let_def)
  next
    case False
    then have "\<lfloor>x\<rfloor> + 1 \<le> b" using f by linarith
    then show ?thesis using f by (simp add: py_round_def Let_def)
  qed
qed

lemma score_bounds:
  "3 \<le> py_round (spec_relevance t kws * 10) \<and> py_round (spec_relevance t kws * 10) \<le> 9"
proof -
  have "of_int 3 \<le> spec_relevance t kws * 10" "spec_relevance t kws * 10 \<le> of_int 9"
    using spec_relevance_bounds [of t kws] by simp_all
  then show ?thesis using py_round_lower py_round_upper by blast
qed

lemma feedback_total:
  "m \<noteq> 0 \<Longrightarrow> \<exists>fb. generate_criterion_feedback n s m t d = Inr fb"
  by (simp add: generate_criterion_feedback_def Let_def)

lemma mark_criteria_erase:
  "mark_criteria d t (map (\<lambda>c. c\<lparr>crit_weight := 0\<rparr>) cs) ms tot mx
   = mark_criteria d t cs ms tot mx"
  by (induction cs arbitrary: ms tot mx) (simp_all add: Let_def split: sum.splits)

lemma erase_fields:
  "ra_criteria (erase_weights r) = map (\<lambda>c. c\<lparr>crit_weight := 0\<rparr>) (ra_criteria r)"
  "ra_grade_boundaries (erase_weights r) = ra_grade_boundaries r"
  by (simp_all add: erase_weights_def)

lemma mark_student_work_erase:
  "mark_student_work e t b (erase_weights r) = mark_student_work e t b r"
  unfolding mark_student_work_def erase_fields mark_criteria_erase by (rule refl)

lemma mark_criteria_result:
  "\<exists>ms. mark_criteria (nlp e t) t cs acc tot mx
          = Inr (acc @ ms, tot + sum_list (map cm_score ms), mx + 10 * int (length cs))
        \<and> map cm_name ms = map crit_name cs
        \<and> map cm_score ms = map (\<lambda>c. py_round (spec_relevance t (crit_keywords c) * 10)) cs
        \<and> map cm_max_score ms = replicate (length cs) 10"
proof (induction cs arbitrary: acc tot mx)
  case Nil
  show ?case by simp
next
  case (Cons c cs)
  let ?s = "py_round (spec_relevance t (crit_keywords c) * 10)"
  obtain fb where
    fb: "generate_criterion_feedback (crit_name c) ?s 10 t (crit_description c) = Inr fb"
    using feedback_total [of 10] by fastforce
  let ?m = "\<lparr>cm_name = crit_name c, cm_score = ?s, cm_max_score = 10, cm_feedback = fb\<rparr>"
  obtain ms where ms:
    "mark_criteria (nlp e t) t cs (acc @ [?m]) (tot + ?s) (mx + 10)
       = Inr ((acc @ [?m]) @ ms, (tot + ?s) + sum_list (map cm_score ms),
              (mx + 10) + 10 * int (length cs))"
    "map cm_name ms = map crit_name cs"
    "map cm_score ms = map (\<lambda>c. py_round (spec_relevance t (crit_keywords c) * 10)) cs"
    "map cm_max_score ms = replicate (length cs) 10"
    using Cons.IH [of "acc @ [?m]" "tot + ?s" "mx + 10"] by blast
  have "mark_criteria (nlp e t) t (c # cs) acc tot mx
          = Inr (acc @ (?m # ms), tot + sum_list (map cm_score (?m # ms)),
                 mx + 10 * int (length (c # cs)))"
    using fb ms(1) by (simp add: relevance_is_spec doc_text_nlp Let_def algebra_simps)
  moreover have "map cm_name (?m # ms) = map crit_name (c # cs)"
    using ms(2) by simp
  moreover have "map cm_score (?m # ms)
      = map (\<lambda>c. py_round (spec_relevance t (crit_keywords c) * 10)) (c # cs)"
    using ms(3) by simp
  moreover have "map cm_max_score (?m # ms) = replicate (length (c # cs)) 10"
    using ms(4) by simp
  ultimately show ?case by blast
qed

lemma mark_student_work_result:
  "\<exists>res. mark_student_work e t b r = Inr res
      \<and> mr_total_score res = sum_list (map cm_score (mr_criteria_marks res))
      \<and> mr_max_score res = 10 * int (length (ra_criteria r))
      \<and> mr_percentage res =
            (if 0 < mr_max_score res
             then of_int (mr_total_score res) / of_int (mr_max_score res) * 100 else 0)
      \<and> map cm_name (mr_criteria_marks res) = map crit_name (ra_criteria r)
      \<and> map cm_score (mr_criteria_marks res)
            = map (\<lambda>c. py_round (spec_relevance t (crit_keywords c) * 10)) (ra_criteria r)
      \<and> map cm_max_score (mr_criteria_marks res) = replicate (length (ra_criteria r)) 10"
proof -
  obtain ms where ms:
    "mark_criteria (nlp e t) t (ra_criteria r) [] 0 0
       = Inr ([] @ ms, 0 + sum_list (map cm_score ms), 0 + 10 * int (length (ra_criteria r)))"
    "map cm_name ms = map crit_name (ra_criteria r)"
    "map cm_score ms
       = map (\<lambda>c. py_round (spec_relevance t (crit_keywords c) * 10)) (ra_criteria r)"
    "map cm_max_score ms = replicate (length (ra_criteria r)) 10"
    using mark_criteria_result [of e t "ra_criteria r" "[]" 0 0] by blast
  show ?thesis
    using ms by (simp add: mark_student_work_def Let_def)
qed

lemma sum_list_between:
  fixes xs :: "int list"
  assumes "\<forall>x \<in> set xs. a \<le> x \<and> x \<le> b"
  shows "a * int (length xs) \<le> sum_list xs \<and> sum_list xs \<le> b * int (length xs)"
  using assms by (induction xs) (auto simp: algebra_simps)

subsection \<open>Auxiliary facts about topic coverage and the aggregator\<close>

lemma topic_covered_iff: "topic_covered e b sts = list_ex (covers e b) sts"
  by (induction sts) (auto simp: covers_def)

lemma count_covered_eq:
  "count_covered e sts bts n = n + length (covered_topics e sts bts)"
  by (induction bts arbitrary: n) (simp_all add: covered_topics_def topic_covered_iff)

lemma length_covered_le: "length (covered_topics e sts bts) \<le> length bts"
  by (simp add: covered_topics_def)








subsection \<open>Auxiliary facts about the reference resolver\<close>

lemma page_content_append: "page_content ps c = c @ concat (map (\<lambda>p. p @ '' '') ps)"
  by (induction ps arbitrary: c) simp_all

lemma page_content_empty: "page_content ps [] = [] \<longleftrightarrow> ps = []"
  by (cases ps) (simp_all add: page_content_append)

lemma analyze_soup_shape:
  "\<exists>r. analyze_soup e url sp = Analysed r
      \<and> ua_url r = url
      \<and> ua_content_sample r
          = (if 500 < length (page_content (soup_paragraphs sp) [])
             then take 500 (page_content (soup_paragraphs sp) []) @ ''...''
             else page_content (soup_paragraphs sp) [])
      \<and> (soup_paragraphs sp \<noteq> [] \<longrightarrow>
            (\<exists>ks es. ua_key_phrases r = Some ks \<and> length ks \<le> 10
                \<and> (\<forall>k \<in> set ks. 1 < length (py_split k))
                \<and> ua_entities r = Some es \<and> length es \<le> 10))
      \<and> (soup_paragraphs sp = [] \<longrightarrow>
            ua_key_phrases r = None \<and> ua_entities r = None \<and> ua_content_sample r = [])"
proof (cases "soup_paragraphs sp = []")
  case True
  then show ?thesis by (simp add: analyze_soup_def Let_def)
next
  case False
  then have ne: "page_content (soup_paragraphs sp) [] \<noteq> []"
    by (simp add: page_content_empty)
  have "\<forall>k \<in> set (take 10 [chunk_text c. c \<leftarrow> doc_noun_chunks d, 1 < length (py_split (chunk_text c))]).
          1 < length (py_split k)" for d
    by (auto dest: in_set_takeD)
  then show ?thesis
    using False ne by (simp add: analyze_soup_def Let_def)
qed

subsection \<open>Claims\<close>

text \<open>
  C3. With an empty grade-boundary map, grade determination gives, for every percentage
  between 0 and 100 (integer or not), the fixed banding A from 80, B from 70, C from 60,
  D from 50 and F below; in particular 85 gives A and 55 gives D.
\<close>

theorem determine_grade_empty_map:
  "(0 \<le> p \<and> p \<le> 100 \<longrightarrow> determine_grade p [] = fixed_banding p)
   \<and> determine_grade 85 [] = ''A'' \<and> determine_grade 55 [] = ''D''"
  by (simp add: determine_grade_def default_boundaries_def fixed_banding_def)

theorem determine_grade_empty_map_witness:
  "(0::rat) \<le> 159 / 2 \<and> (159 / 2 :: rat) \<le> 100
   \<and> determine_grade (159 / 2) [] = ''B'' \<and> fixed_banding (159 / 2) = ''B''"
  using determine_grade_empty_map [of "159 / 2"]
  by (simp add: fixed_banding_def)

text \<open>
  C1. Declared criterion weights are not applied: for every submission text and brief
  analysis, two rubric analyses that are identical except for the weights of their criteria
  give identical marking results. Marking always returns a result, in which every
  criterion has the maximum score 10 and the overall maximum score is 10 times the number
  of criteria.
\<close>

theorem weights_not_applied:
  assumes "erase_weights r1 = erase_weights r2"
  shows "mark_student_work e t b r1 = mark_student_work e t b r2
         \<and> (\<exists>res. mark_student_work e t b r1 = Inr res
               \<and> mr_max_score res = 10 * int (length (ra_criteria r1))
               \<and> map cm_max_score (mr_criteria_marks res)
                   = replicate (length (ra_criteria r1)) 10)"
proof -
  have "mark_student_work e t b r1 = mark_student_work e t b (erase_weights r1)"
    by (simp only: mark_student_work_erase)
  also have "\<dots> = mark_student_work e t b (erase_weights r2)"
    using assms by simp
  also have "\<dots> = mark_student_work e t b r2"
    by (simp only: mark_student_work_erase)
  finally show ?thesis
    using mark_student_work_result [of e t b r1] by blast
qed

theorem weights_not_applied_witness:
  "erase_weights (two_criteria 40 60) = erase_weights (two_criteria 90 10)
   \<and> two_criteria 40 60 \<noteq> two_criteria 90 10
   \<and> mark_student_work offline_env ''Some content'' no_brief (two_criteria 40 60)
       = mark_student_work offline_env ''Some content'' no_brief (two_criteria 90 10)"
proof -
  have h: "erase_weights (two_criteria 40 60) = erase_weights (two_criteria 90 10)"
    by (simp add: erase_weights_def two_criteria_def)
  have d: "two_criteria 40 60 \<noteq> two_criteria 90 10"
    by (simp add: two_criteria_def)
  show ?thesis
    using h d weights_not_applied [OF h, of offline_env "''Some content''" no_brief]
    by blast
qed

text \<open>
  C2. The relevance of a criterion is one half when it has no keywords; otherwise it is
  the fraction of its keywords whose lower-cased form occurs as a substring of the
  lower-cased submission text, clamped to the interval from 0.3 to 0.9. In the marking
  result the score of each criterion is that relevance times 10, rounded, and its maximum
  score is 10.
\<close>

theorem criterion_relevance_and_score:
  "calculate_criterion_relevance (nlp e t) [] = 1 / 2
   \<and> (kws \<noteq> [] \<longrightarrow>
        calculate_criterion_relevance (nlp e t) kws
          = min (9 / 10)
              (max (3 / 10)
                 (of_nat (length (filter (keyword_present t) kws)) / of_nat (length kws))))
   \<and> (\<exists>res. mark_student_work e t b r = Inr res
         \<and> map cm_score (mr_criteria_marks res)
             = map (\<lambda>c. py_round (calculate_criterion_relevance (nlp e t) (crit_keywords c) * 10))
                 (ra_criteria r)
         \<and> map cm_max_score (mr_criteria_marks res) = replicate (length (ra_criteria r)) 10)"
proof -
  have "calculate_criterion_relevance (nlp e t) [] = 1 / 2"
    by (simp add: calculate_criterion_relevance_def)
  moreover have "kws \<noteq> [] \<longrightarrow>
        calculate_criterion_relevance (nlp e t) kws
          = min (9 / 10)
              (max (3 / 10)
                 (of_nat (length (filter (keyword_present t) kws)) / of_nat (length kws)))"
    by (simp add: relevance_is_spec doc_text_nlp spec_relevance_def)
  moreover have "\<exists>res. mark_student_work e t b r = Inr res
         \<and> map cm_score (mr_criteria_marks res)
             = map (\<lambda>c. py_round (calculate_criterion_relevance (nlp e t) (crit_keywords c) * 10))
                 (ra_criteria r)
         \<and> map cm_max_score (mr_criteria_marks res) = replicate (length (ra_criteria r)) 10"
  proof -
    have eq: "\<And>c. calculate_criterion_relevance (nlp e t) (crit_keywords c)
                 = spec_relevance t (crit_keywords c)"
      by (simp add: relevance_is_spec doc_text_nlp)
    show ?thesis
      unfolding eq using mark_student_work_result [of e t b r] by blast
  qed
  ultimately show ?thesis by blast
qed

theorem criterion_relevance_and_score_witness:
  "[''Content'', ''evidence''] \<noteq> []
   \<and> calculate_criterion_relevance (nlp offline_env ''Some content'') [''Content'', ''evidence'']
       = 1 / 2
   \<and> calculate_criterion_relevance (nlp offline_env ''Some content'') [''evidence''] = 3 / 10"
proof -
  have h: "[''Content'', ''evidence''] \<noteq> []"
    by simp
  have v: "length (filter (keyword_present ''Some content'') [''Content'', ''evidence'']) = 1"
    by code_simp
  have w: "length (filter (keyword_present ''Some content'') [''evidence'']) = 0"
    by code_simp
  show ?thesis
    using h
      criterion_relevance_and_score
        [of offline_env "''Some content''" "[''Content'', ''evidence'']" no_brief no_criteria]
      criterion_relevance_and_score
        [of offline_env "''Some content''" "[''evidence'']" no_brief no_criteria]
    unfolding v w by simp
qed

text \<open>
  C6. With a rubric analysis of zero criteria, marking returns a result (it raises no
  division fault) whose total score, maximum score and percentage are all exactly 0.
\<close>

theorem no_criteria_zero_percentage:
  assumes "ra_criteria r = []"
  shows "\<exists>res. mark_student_work e t b r = Inr res
           \<and> mr_total_score res = 0 \<and> mr_max_score res = 0 \<and> mr_percentage res = 0"
  using mark_student_work_result [of e t b r] assms by auto

theorem no_criteria_zero_percentage_witness:
  "ra_criteria no_criteria = []
   \<and> (\<exists>res. mark_student_work offline_env ''An essay.'' no_brief no_criteria = Inr res
         \<and> mr_total_score res = 0 \<and> mr_max_score res = 0 \<and> mr_percentage res = 0)"
proof -
  have h: "ra_criteria no_criteria = []"
    by (simp add: no_criteria_def)
  show ?thesis
    using h no_criteria_zero_percentage [OF h, of offline_env "''An essay.''" no_brief]
    by blast
qed

text \<open>
  C10. With a rubric analysis of at least one criterion, marking returns a result in
  which every criterion score lies between 3 and 9 and the overall percentage lies between
  30 and 90.
\<close>

theorem score_and_percentage_bounds:
  assumes "ra_criteria r \<noteq> []"
  shows "\<exists>res. mark_student_work e t b r = Inr res
           \<and> (\<forall>m \<in> set (mr_criteria_marks res). 3 \<le> cm_score m \<and> cm_score m \<le> 9)
           \<and> 30 \<le> mr_percentage res \<and> mr_percentage res \<le> 90"
proof -
  obtain res where res:
    "mark_student_work e t b r = Inr res"
    "mr_total_score res = sum_list (map cm_score (mr_criteria_marks res))"
    "mr_max_score res = 10 * int (length (ra_criteria r))"
    "mr_percentage res =
       (if 0 < mr_max_score res
        then of_int (mr_total_score res) / of_int (mr_max_score res) * 100 else 0)"
    "map cm_score (mr_criteria_marks res)
       = map (\<lambda>c. py_round (spec_relevance t (crit_keywords c) * 10)) (ra_criteria r)"
    using mark_student_work_result [of e t b r] by blast
  let ?scores = "map cm_score (mr_criteria_marks res)"
  let ?n = "int (length (ra_criteria r))"
  have in_range: "\<forall>x \<in> set ?scores. 3 \<le> x \<and> x \<le> 9"
    unfolding res(5) using score_bounds by auto
  have len: "int (length ?scores) = ?n"
    unfolding res(5) by simp
  have tot: "3 * ?n \<le> mr_total_score res \<and> mr_total_score res \<le> 9 * ?n"
    using sum_list_between [OF in_range] len res(2) by simp
  have pos: "0 < ?n"
    using assms by simp
  have pct: "mr_percentage res = of_int (mr_total_score res) / of_int (10 * ?n) * 100"
    using res(3,4) pos by simp
  have lo: "(3::rat) * of_int ?n \<le> of_int (mr_total_score res)"
    using tot by (metis of_int_le_iff of_int_mult of_int_numeral)
  have hi: "of_int (mr_total_score res) \<le> (9::rat) * of_int ?n"
    using tot by (metis of_int_le_iff of_int_mult of_int_numeral)
  have posr: "(0::rat) < of_int ?n"
    using pos by simp
  have "30 \<le> mr_percentage res \<and> mr_percentage res \<le> 90"
    unfolding pct using lo hi posr by (simp add: field_simps)
  moreover have "\<forall>m \<in> set (mr_criteria_marks res). 3 \<le> cm_score m \<and> cm_score m \<le> 9"
    using in_range by simp
  ultimately show ?thesis
    using res(1) by blast
qed

theorem score_and_percentage_bounds_witness:
  "ra_criteria (two_criteria 40 60) \<noteq> []
   \<and> (\<exists>res. mark_student_work offline_env ''Some content'' no_brief (two_criteria 40 60) = Inr res
         \<and> (\<forall>m \<in> set (mr_criteria_marks res). 3 \<le> cm_score m \<and> cm_score m \<le> 9)
         \<and> 30 \<le> mr_percentage res \<and> mr_percentage res \<le> 90)"
proof -
  have h: "ra_criteria (two_criteria 40 60) \<noteq> []"
    by (simp add: two_criteria_def)
  show ?thesis
    using h score_and_percentage_bounds [OF h, of offline_env "''Some content''" no_brief]
    by blast
qed

text \<open>
  C4. Topic coverage is 1 when the brief has no key topics; it is 0 when the brief has
  key topics and the student has none (whatever the similarity capability returns, so in
  particular when it always returns 0); and with key topics it is the number of covered
  brief topics, each entry of the list counted at most once, divided by the number of
  brief topics. It always lies between 0 and 1.
\<close>

theorem topic_coverage_fraction:
  "calculate_topic_coverage e st [] = 1
   \<and> (bt \<noteq> [] \<longrightarrow> calculate_topic_coverage e [] bt = 0)
   \<and> (bt \<noteq> [] \<longrightarrow>
        calculate_topic_coverage e st bt
          = of_nat (length (covered_topics e st bt)) / of_nat (length bt))
   \<and> 0 \<le> calculate_topic_coverage e st bt \<and> calculate_topic_coverage e st bt \<le> 1"
proof -
  have a: "calculate_topic_coverage e st [] = 1"
    by (simp add: calculate_topic_coverage_def)
  have c: "bt \<noteq> [] \<longrightarrow>
        calculate_topic_coverage e st bt
          = of_nat (length (covered_topics e st bt)) / of_nat (length bt)" for st
    by (simp add: calculate_topic_coverage_def count_covered_eq)
  have "covered_topics e [] bt = []"
    by (simp add: covered_topics_def)
  then have b: "bt \<noteq> [] \<longrightarrow> calculate_topic_coverage e [] bt = 0"
    using c [of "[]"] by simp
  have d: "0 \<le> calculate_topic_coverage e st bt \<and> calculate_topic_coverage e st bt \<le> 1"
  proof (cases "bt = []")
    case True
    then show ?thesis by (simp add: calculate_topic_coverage_def)
  next
    case False
    then have "0 < length bt" by simp
    then show ?thesis
      using c [of st] False length_covered_le [of e st bt]
      by (simp add: divide_le_eq)
  qed
  show ?thesis using a b c d by blast
qed

theorem topic_coverage_fraction_witness:
  "[''machine learning'', ''neural networks''] \<noteq> []
   \<and> calculate_topic_coverage offline_env []
        [''machine learning'', ''neural networks''] = 0
   \<and> calculate_topic_coverage offline_env [''machine learning models'']
        [''machine learning'', ''neural networks''] = 1 / 2"
proof -
  have h: "[''machine learning'', ''neural networks''] \<noteq> []"
    by simp
  have v: "covered_topics offline_env [''machine learning models'']
             [''machine learning'', ''neural networks''] = [''machine learning'']"
    by code_simp
  show ?thesis
    using h
      topic_coverage_fraction [of offline_env "[''machine learning models'']"
        "[''machine learning'', ''neural networks'']"]
    unfolding v by simp
qed



text \<open>
  C7. When neither the weighted-pattern pass nor the paragraph pass extracts a criterion,
  the criteria of the parsed rubric are exactly the default set Content (weight 40),
  Structure (weight 30), Research (weight 20), Language (weight 10); the criteria of a
  parsed rubric are never empty.
\<close>

theorem process_rubric_default:
  "(weighted_pass e t = [] \<and> paragraph_pass e t = [] \<longrightarrow>
      ra_criteria (process_rubric e t) = default_criteria)
   \<and> map (\<lambda>c. (crit_name c, crit_weight c)) default_criteria
       = [(''Content'', 40), (''Structure'', 30), (''Research'', 20), (''Language'', 10)]
   \<and> ra_criteria (process_rubric e t) \<noteq> []"
  by (simp add: process_rubric_def Let_def default_criteria_def)

theorem process_rubric_default_witness:
  "weighted_pass offline_env
     (''Assessed holistically'' @ [CHR 0x0A, CHR 0x0A] @ ''):'') = []
   \<and> paragraph_pass offline_env
       (''Assessed holistically'' @ [CHR 0x0A, CHR 0x0A] @ ''):'') = []
   \<and> ra_criteria (process_rubric offline_env
         (''Assessed holistically'' @ [CHR 0x0A, CHR 0x0A] @ ''):''))
       = default_criteria"
proof -
  have h1: "weighted_pass offline_env
              (''Assessed holistically'' @ [CHR 0x0A, CHR 0x0A] @ ''):'') = []"
    by (simp add: weighted_pass_def offline_env_def)
  have h2: "paragraph_pass offline_env
              (''Assessed holistically'' @ [CHR 0x0A, CHR 0x0A] @ ''):'') = []"
    by code_simp
  show ?thesis
    using h1 h2
      process_rubric_default
        [of offline_env "''Assessed holistically'' @ [CHR 0x0A, CHR 0x0A] @ ''):''"]
    by blast
qed

text \<open>
  C8 (as the code has it). Every successful analysis record stores as content sample the
  page content itself when that has at most 500 characters, and otherwise its first 500
  characters followed by the three-character marker, so at most 503 characters. When the
  page has a paragraph the record holds at most 10 key phrases, each of more than one
  word, and at most 10 entities; when it has none, the record holds neither field and an
  empty content sample.
\<close>

theorem url_record_shape:
  assumes "analyze_url_content e url = Analysed r"
  shows "\<exists>resp sp. requests_get e url = Inr resp
           \<and> html_parser e (response_text resp) = Inr sp
           \<and> ua_content_sample r
               = (if 500 < length (page_content (soup_paragraphs sp) [])
                  then take 500 (page_content (soup_paragraphs sp) []) @ ''...''
                  else page_content (soup_paragraphs sp) [])
           \<and> length (ua_content_sample r) \<le> 503
           \<and> (soup_paragraphs sp \<noteq> [] \<longrightarrow>
                 (\<exists>ks es. ua_key_phrases r = Some ks \<and> length ks \<le> 10
                     \<and> (\<forall>k \<in> set ks. 1 < length (py_split k))
                     \<and> ua_entities r = Some es \<and> length es \<le> 10))
           \<and> (soup_paragraphs sp = [] \<longrightarrow>
                 ua_key_phrases r = None \<and> ua_entities r = None \<and> ua_content_sample r = [])"
proof -
  obtain resp sp where steps:
    "requests_get e url = Inr resp" "html_parser e (response_text resp) = Inr sp"
    "analyze_soup e url sp = Analysed r"
    using assms
    by (auto simp: analyze_url_content_def failed_def split: sum.splits option.splits)
  obtain r' where r': "analyze_soup e url sp = Analysed r'"
      "ua_content_sample r'
          = (if 500 < length (page_content (soup_paragraphs sp) [])
             then take 500 (page_content (soup_paragraphs sp) []) @ ''...''
             else page_content (soup_paragraphs sp) [])"
      "soup_paragraphs sp \<noteq> [] \<longrightarrow>
            (\<exists>ks es. ua_key_phrases r' = Some ks \<and> length ks \<le> 10
                \<and> (\<forall>k \<in> set ks. 1 < length (py_split k))
                \<and> ua_entities r' = Some es \<and> length es \<le> 10)"
      "soup_paragraphs sp = [] \<longrightarrow>
            ua_key_phrases r' = None \<and> ua_entities r' = None \<and> ua_content_sample r' = []"
    using analyze_soup_shape [of e url sp] by blast
  have eq: "r' = r" using steps(3) r'(1) by simp
  have len: "length (ua_content_sample r) \<le> 503"
    using r'(2) unfolding eq by (simp split: if_splits)
  show ?thesis
    using steps(1,2) r'(2,3,4) len unfolding eq by blast
qed

theorem url_record_shape_witness:
  "analyze_url_content (page_env [''Hello world'']) ''http://a''
     = Analysed
         \<lparr>ua_url = ''http://a'', ua_title = Some ''No title'', ua_meta_description = [],
          ua_key_phrases = Some [], ua_entities = Some [],
          ua_content_sample = ''Hello world ''\<rparr>
   \<and> length ''Hello world '' \<le> (503::nat)"
proof -
  have h: "analyze_url_content (page_env [''Hello world'']) ''http://a''
     = Analysed
         \<lparr>ua_url = ''http://a'', ua_title = Some ''No title'', ua_meta_description = [],
          ua_key_phrases = Some [], ua_entities = Some [],
          ua_content_sample = ''Hello world ''\<rparr>"
    by code_simp
  show ?thesis
    using h url_record_shape [OF h] by simp
qed

text \<open>
  C8, as the specification states it (a content sample of at most 500 characters, and key
  phrases and entities in every successful record), does not hold of the code: a page whose
  single paragraph has 500 characters gives a sample of 503 characters, and a page without
  paragraphs gives a record with neither key phrases nor entities.
\<close>

theorem url_record_counterexample:
  "analyze_url_content (page_env [replicate 500 (CHR ''a'')]) ''http://a''
     = Analysed
         \<lparr>ua_url = ''http://a'', ua_title = Some ''No title'', ua_meta_description = [],
          ua_key_phrases = Some [], ua_entities = Some [],
          ua_content_sample = replicate 500 (CHR ''a'') @ ''...''\<rparr>
   \<and> length (replicate 500 (CHR ''a'') @ ''...'') = 503
   \<and> analyze_url_content (page_env []) ''http://a''
     = Analysed
         \<lparr>ua_url = ''http://a'', ua_title = Some ''No title'', ua_meta_description = [],
          ua_key_phrases = None, ua_entities = None, ua_content_sample = []\<rparr>"
  by (simp add: analyze_url_content_def analyze_soup_def page_env_def offline_env_def
      nlp_def no_tagging_def Let_def)



end
